theory Spec2Isabelle
  imports Complex_Main
begin

section \<open>Pure pursuit controller: data model\<close>

text \<open>
  The embedding follows \<^verbatim>\<open>nav2_pure_pursuit_controller/src/pure_pursuit_controller.cpp\<close>.

  Numbers. A C++ \<^verbatim>\<open>double\<close> that the host hands in (a coordinate, a parameter, the
  current speed) is a \<^typ>\<open>real\<close>, and arithmetic on finite values is exact: there is
  no rounding and no overflow. A \<^verbatim>\<open>double\<close> that the controller computes behind a division
  is a value of the type \<open>double\<close> below, which has the two infinities and NaN beside
  the reals: a division by zero gives them, and from there they follow the IEEE 754
  rules through sums, products, quotients, comparisons and \<^verbatim>\<open>std::clamp\<close>. The divisions
  concerned are those of \<^verbatim>\<open>applyKinematicConstraints\<close> (lines 241, 246 and 254); the
  division of line 192 is guarded by line 191. The reals have one zero; it stands for
  \<open>+0.0\<close>. A time stamp (\<^verbatim>\<open>rclcpp::Time\<close>) is an integer count of nanoseconds;
  \<^verbatim>\<open>Duration::seconds()\<close> divides by \<open>10^9\<close>.

  Messages. The \<^verbatim>\<open>geometry_msgs\<close> and \<^verbatim>\<open>nav_msgs\<close> messages are records with the
  fields of the message definitions. The components of a twist have the type \<open>'a\<close>:
  \<^typ>\<open>real\<close> for the speed the host hands in, \<open>double\<close> for a command the controller has
  computed, since that is where a NaN can be stored.
\<close>

datatype double = Finite real | PosInf | NegInf | NaN

record point =
  pt_x :: real
  pt_y :: real
  pt_z :: real

record quaternion =
  q_x :: real
  q_y :: real
  q_z :: real
  q_w :: real

record pose =
  position :: point
  orientation :: quaternion

record header =
  frame_id :: string
  stamp :: int

record pose_stamped =
  ps_header :: header
  ps_pose :: pose

record path =
  path_header :: header
  poses :: "pose_stamped list"

record 'a vector3 =
  v_x :: 'a
  v_y :: 'a
  v_z :: 'a

record 'a twist =
  linear :: "'a vector3"
  angular :: "'a vector3"

record 'a twist_stamped =
  ts_header :: header
  ts_twist :: "'a twist"

text \<open>Value-initialised messages, as a C++ declaration without initialiser leaves them.\<close>

definition default_header :: header where
  "default_header = \<lparr>frame_id = [], stamp = 0\<rparr>"

definition default_pose :: pose where
  "default_pose =
     \<lparr>position = \<lparr>pt_x = 0, pt_y = 0, pt_z = 0\<rparr>,
      orientation = \<lparr>q_x = 0, q_y = 0, q_z = 0, q_w = 1\<rparr>\<rparr>"

definition default_pose_stamped :: pose_stamped where
  "default_pose_stamped = \<lparr>ps_header = default_header, ps_pose = default_pose\<rparr>"

definition default_twist :: "double twist" where
  "default_twist =
     \<lparr>linear = \<lparr>v_x = Finite 0, v_y = Finite 0, v_z = Finite 0\<rparr>,
      angular = \<lparr>v_x = Finite 0, v_y = Finite 0, v_z = Finite 0\<rparr>\<rparr>"

text \<open>The parameters read by \<^verbatim>\<open>configure\<close> (lines 92 to 103).\<close>

record config =
  desired_linear_vel :: real
  max_accel :: real
  max_decel :: real
  lookahead_dist :: real
  min_lookahead_dist :: real
  max_lookahead_dist :: real
  lookahead_gain :: real
  max_angular_vel :: real
  use_velocity_scaled_lookahead_dist :: bool

text \<open>
  The collaborators the controller holds handles to. None of them is code of this
  repository, so each is a parameter:
  \<^item> \<open>tf_transform frame p\<close> is \<^verbatim>\<open>tf_->transform(p, out, frame, tolerance)\<close>: \<open>Some\<close> of
    the pose written to \<^verbatim>\<open>out\<close>, or \<open>None\<close> when it throws \<^verbatim>\<open>tf2::TransformException\<close>
    (and \<^verbatim>\<open>out\<close> is then left as it was);
  \<^item> the cost grid's size in cells and its resolution, and the base frame of
    \<^verbatim>\<open>costmap_ros_\<close>;
  \<^item> \<open>clock_now\<close> is what \<^verbatim>\<open>clock_->now()\<close> returns in this tick;
  \<^item> \<open>collision_ret\<close> is the value the caller of \<^verbatim>\<open>isCollisionImminent\<close> reads: the body
    of that function (lines 222 to 230) holds comments only and no \<^verbatim>\<open>return\<close>, so the
    source does not determine it.
\<close>

record env =
  tf_transform :: "string \<Rightarrow> pose_stamped \<Rightarrow> pose_stamped option"
  costmap_size_x :: nat
  costmap_size_y :: nat
  costmap_resolution :: real
  base_frame_id :: string
  clock_now :: int
  collision_ret :: bool

text \<open>
  The mutable members: the held plan, the last emitted command, and what has been
  handed to the publisher \<^verbatim>\<open>global_pub_\<close> (latest first).
\<close>

record state =
  global_plan :: path
  last_cmd :: "double twist_stamped"
  published :: "path list"

text \<open>
  The exceptions thrown: \<^verbatim>\<open>PlannerException\<close> with its three messages (lines 273, 280
  and 328) and the \<^verbatim>\<open>runtime_error\<close> of line 209. An exception leaves the members as
  they are at the \<^verbatim>\<open>throw\<close>, so a failing operation returns the state too.
\<close>

datatype error =
  ZeroLengthPlan
  | RobotTransformFailed
  | EmptyResultingPlan
  | CollisionAhead

section \<open>Library functions used by the controller\<close>

definition hypot :: "real \<Rightarrow> real \<Rightarrow> real" where
  "hypot a b = sqrt (a * a + b * b)"

text \<open>
  Modelled from the spec: \<^verbatim>\<open>nav2_util::geometry_utils::euclidean_distance\<close> is not under
  src/; section 4.1 of the spec gives it as the planar Euclidean distance between two
  positions.
\<close>

definition euclidean_distance :: "pose_stamped \<Rightarrow> pose_stamped \<Rightarrow> real" where
  "euclidean_distance a b =
     hypot (pt_x (position (ps_pose a)) - pt_x (position (ps_pose b)))
           (pt_y (position (ps_pose a)) - pt_y (position (ps_pose b)))"

text \<open>\<^verbatim>\<open>std::clamp(v, lo, hi)\<close>: \<^verbatim>\<open>(v < lo) ? lo : (hi < v) ? hi : v\<close>.\<close>

definition std_clamp :: "real \<Rightarrow> real \<Rightarrow> real \<Rightarrow> real" where
  "std_clamp v lo hi = (if v < lo then lo else if hi < v then hi else v)"

text \<open>
  IEEE 754 arithmetic on the special values. An infinity absorbs a finite summand and
  takes the sign of a product or quotient; \<open>\<infinity> - \<infinity>\<close>, \<open>0 \<times> \<infinity>\<close>, \<open>0 / 0\<close> and \<open>\<infinity> / \<infinity>\<close> are
  NaN; a finite non-zero value over zero is an infinity of the sign of the dividend;
  every operation on NaN gives NaN, and every comparison with NaN is false.
\<close>

fun dneg :: "double \<Rightarrow> double" where
  "dneg (Finite a) = Finite (- a)"
| "dneg PosInf = NegInf"
| "dneg NegInf = PosInf"
| "dneg NaN = NaN"

fun dadd :: "double \<Rightarrow> double \<Rightarrow> double" where
  "dadd (Finite a) (Finite b) = Finite (a + b)"
| "dadd (Finite a) PosInf = PosInf"
| "dadd (Finite a) NegInf = NegInf"
| "dadd PosInf (Finite b) = PosInf"
| "dadd PosInf PosInf = PosInf"
| "dadd PosInf NegInf = NaN"
| "dadd NegInf (Finite b) = NegInf"
| "dadd NegInf PosInf = NaN"
| "dadd NegInf NegInf = NegInf"
| "dadd NaN y = NaN"
| "dadd x NaN = NaN"

definition dsub :: "double \<Rightarrow> double \<Rightarrow> double" where
  "dsub x y = dadd x (dneg y)"

fun dmul :: "double \<Rightarrow> double \<Rightarrow> double" where
  "dmul (Finite a) (Finite b) = Finite (a * b)"
| "dmul (Finite a) PosInf = (if a = 0 then NaN else if 0 < a then PosInf else NegInf)"
| "dmul (Finite a) NegInf = (if a = 0 then NaN else if 0 < a then NegInf else PosInf)"
| "dmul PosInf (Finite b) = (if b = 0 then NaN else if 0 < b then PosInf else NegInf)"
| "dmul NegInf (Finite b) = (if b = 0 then NaN else if 0 < b then NegInf else PosInf)"
| "dmul PosInf PosInf = PosInf"
| "dmul PosInf NegInf = NegInf"
| "dmul NegInf PosInf = NegInf"
| "dmul NegInf NegInf = PosInf"
| "dmul NaN y = NaN"
| "dmul x NaN = NaN"

fun ddiv :: "double \<Rightarrow> double \<Rightarrow> double" where
  "ddiv (Finite a) (Finite b) =
     (if b \<noteq> 0 then Finite (a / b)
      else if a = 0 then NaN else if 0 < a then PosInf else NegInf)"
| "ddiv (Finite a) PosInf = Finite 0"
| "ddiv (Finite a) NegInf = Finite 0"
| "ddiv PosInf (Finite b) = (if 0 \<le> b then PosInf else NegInf)"
| "ddiv NegInf (Finite b) = (if 0 \<le> b then NegInf else PosInf)"
| "ddiv PosInf PosInf = NaN"
| "ddiv PosInf NegInf = NaN"
| "ddiv NegInf PosInf = NaN"
| "ddiv NegInf NegInf = NaN"
| "ddiv NaN y = NaN"
| "ddiv x NaN = NaN"

fun dless :: "double \<Rightarrow> double \<Rightarrow> bool" where
  "dless (Finite a) (Finite b) = (a < b)"
| "dless (Finite a) PosInf = True"
| "dless (Finite a) NegInf = False"
| "dless PosInf y = False"
| "dless NegInf (Finite b) = True"
| "dless NegInf PosInf = True"
| "dless NegInf NegInf = False"
| "dless NaN y = False"
| "dless x NaN = False"

text \<open>\<^verbatim>\<open>std::clamp\<close> on a value that may be special: a NaN fails both comparisons and is
  returned as it is.\<close>

definition dclamp :: "double \<Rightarrow> double \<Rightarrow> double \<Rightarrow> double" where
  "dclamp v lo hi = (if dless v lo then lo else if dless hi v then hi else v)"


text \<open>
  \<^verbatim>\<open>std::find_if\<close> over a list: the offset of the first element that satisfies the
  predicate, or the length of the list (the end iterator) when none does.
\<close>

fun find_if :: "('a \<Rightarrow> bool) \<Rightarrow> 'a list \<Rightarrow> nat" where
  "find_if P [] = 0"
| "find_if P (y # ys) = (if P y then 0 else Suc (find_if P ys))"

section \<open>The controller\<close>

text \<open>
  \<^verbatim>\<open>min_by\<close> (lines 30 to 46). Iterators are offsets into the list; the loop carries the
  offset \<open>i\<close> of the element it looks at, the lowest value so far and its offset.
\<close>

fun min_by_loop :: "('a \<Rightarrow> real) \<Rightarrow> 'a list \<Rightarrow> nat \<Rightarrow> real \<Rightarrow> nat \<Rightarrow> nat" where
  "min_by_loop getCompareVal [] i lowest lowest_it = lowest_it"
| "min_by_loop getCompareVal (y # ys) i lowest lowest_it =
     (let comp = getCompareVal y in
      if comp < lowest then min_by_loop getCompareVal ys (Suc i) comp i
      else min_by_loop getCompareVal ys (Suc i) lowest lowest_it)"

fun min_by :: "('a \<Rightarrow> real) \<Rightarrow> 'a list \<Rightarrow> nat" where
  "min_by getCompareVal [] = 0"
| "min_by getCompareVal (y # ys) = min_by_loop getCompareVal ys 1 (getCompareVal y) 0"

text \<open>
  \<^verbatim>\<open>getLookAheadDistance\<close> (lines 135 to 148). The source reads \<^verbatim>\<open>speed.linear.x\<close>, the
  argument of \<^verbatim>\<open>computeVelocityCommands\<close>, which is passed here.
\<close>

definition getLookAheadDistance :: "config \<Rightarrow> real twist \<Rightarrow> real" where
  "getLookAheadDistance cfg speed =
     (if use_velocity_scaled_lookahead_dist cfg
      then std_clamp (v_x (linear speed) * lookahead_gain cfg)
             (min_lookahead_dist cfg) (max_lookahead_dist cfg)
      else lookahead_dist cfg)"

text \<open>
  \<^verbatim>\<open>transformPose\<close> (lines 334 to 353): the flag returned and the new content of
  \<^verbatim>\<open>out_pose\<close>.
\<close>

definition transformPose :: "env \<Rightarrow> string \<Rightarrow> pose_stamped \<Rightarrow> pose_stamped \<Rightarrow> bool \<times> pose_stamped" where
  "transformPose e frame in_pose out_pose =
     (if frame_id (ps_header in_pose) = frame then (True, in_pose)
      else (case tf_transform e frame in_pose of
              Some p \<Rightarrow> (True, p)
            | None \<Rightarrow> (False, out_pose)))"

text \<open>
  The lambda \<^verbatim>\<open>transformGlobalPoseToLocal\<close> (lines 304 to 311) under \<^verbatim>\<open>std::transform\<close>
  (lines 315 to 318). It captures \<^verbatim>\<open>transformed_pose\<close> by reference and ignores the flag
  of \<^verbatim>\<open>transformPose\<close>, so the loop carries that variable from one pose to the next.
\<close>

fun transformGlobalPoseToLocal ::
  "env \<Rightarrow> string \<Rightarrow> int \<Rightarrow> pose_stamped list \<Rightarrow> pose_stamped \<Rightarrow> pose_stamped list" where
  "transformGlobalPoseToLocal e plan_frame robot_stamp [] transformed_pose = []"
| "transformGlobalPoseToLocal e plan_frame robot_stamp (global_plan_pose # rest) transformed_pose =
     (let stamped_pose =
            \<lparr>ps_header = \<lparr>frame_id = plan_frame, stamp = robot_stamp\<rparr>,
             ps_pose = ps_pose global_plan_pose\<rparr>;
          transformed_pose' = snd (transformPose e (base_frame_id e) stamped_pose transformed_pose)
      in transformed_pose' # transformGlobalPoseToLocal e plan_frame robot_stamp rest transformed_pose')"

text \<open>The two iterators of \<^verbatim>\<open>transformGlobalPlan\<close> (lines 284 to 301), as offsets.\<close>

definition max_transform_dist :: "env \<Rightarrow> real" where
  "max_transform_dist e =
     real (max (costmap_size_x e) (costmap_size_y e)) * costmap_resolution e / 2"

definition transformation_begin :: "pose_stamped \<Rightarrow> pose_stamped list \<Rightarrow> nat" where
  "transformation_begin robot_pose ps = min_by (\<lambda>p. euclidean_distance robot_pose p) ps"

definition transformation_end :: "env \<Rightarrow> pose_stamped \<Rightarrow> pose_stamped list \<Rightarrow> nat" where
  "transformation_end e robot_pose ps =
     (let b = transformation_begin robot_pose ps in
      b + find_if (\<lambda>p. euclidean_distance robot_pose p > max_transform_dist e) (drop b ps))"

text \<open>\<^verbatim>\<open>transformGlobalPlan\<close> (lines 268 to 332).\<close>

definition transformGlobalPlan :: "env \<Rightarrow> state \<Rightarrow> pose_stamped \<Rightarrow> (error + path) \<times> state" where
  "transformGlobalPlan e s pose =
     (if poses (global_plan s) = [] then (Inl ZeroLengthPlan, s)
      else
        (case transformPose e (frame_id (path_header (global_plan s))) pose default_pose_stamped of
           (False, robot_pose) \<Rightarrow> (Inl RobotTransformFailed, s)
         | (True, robot_pose) \<Rightarrow>
             (let b = transformation_begin robot_pose (poses (global_plan s));
                  en = transformation_end e robot_pose (poses (global_plan s));
                  transformed_plan =
                    \<lparr>path_header =
                       \<lparr>frame_id = base_frame_id e, stamp = stamp (ps_header robot_pose)\<rparr>,
                     poses =
                       transformGlobalPoseToLocal e (frame_id (path_header (global_plan s)))
                         (stamp (ps_header robot_pose))
                         (take (en - b) (drop b (poses (global_plan s))))
                         default_pose_stamped\<rparr>;
                  s1 = s\<lparr>global_plan := (global_plan s)\<lparr>poses := drop b (poses (global_plan s))\<rparr>,
                         published := transformed_plan # published s\<rparr>
              in if poses transformed_plan = [] then (Inl EmptyResultingPlan, s1)
                 else (Inr transformed_plan, s1))))"

text \<open>
  \<^verbatim>\<open>isCollisionImminent\<close> (lines 222 to 230): no statement, no \<^verbatim>\<open>return\<close>. The caller
  reads a value that neither pose determines.
\<close>

definition isCollisionImminent :: "env \<Rightarrow> pose_stamped \<Rightarrow> pose \<Rightarrow> bool" where
  "isCollisionImminent e robot_pose carrot_pose = collision_ret e"

text \<open>
  \<^verbatim>\<open>applyKinematicConstraints\<close> (lines 232 to 260): the new values of the two reference
  arguments. Line 245 redeclares \<^verbatim>\<open>dt\<close> with an elided initialiser; the model uses the
  argument. \<^verbatim>\<open>max_accel\<close> and \<^verbatim>\<open>max_decel\<close> on lines 249, 255 and 257 are read as the
  members \<^verbatim>\<open>max_accel_\<close> and \<^verbatim>\<open>max_decel_\<close>. The quotient of line 241 (by the lookahead
  distance) and those of lines 246 and 254 (by \<open>dt\<close>) are IEEE quotients, so that a zero
  divisor gives an infinity or NaN, and the last command may hold a NaN from an
  earlier tick.
\<close>

definition applyKinematicConstraints ::
  "config \<Rightarrow> env \<Rightarrow> state \<Rightarrow> real \<Rightarrow> real \<Rightarrow> real \<Rightarrow> real \<Rightarrow> real \<Rightarrow> double \<times> double" where
  "applyKinematicConstraints cfg e s linear_vel angular_vel dist_error lookahead dt =
     (let last_lin = v_x (linear (ts_twist (last_cmd s)));
          last_ang = v_z (angular (ts_twist (last_cmd s)));
          linear_vel1 =
            (if dist_error > 2 * costmap_resolution e
             then dmul (Finite linear_vel) (ddiv (Finite dist_error) (Finite lookahead))
             else Finite linear_vel);
          measured_lin_accel = ddiv (dsub linear_vel1 last_lin) (Finite dt);
          linear_vel2 =
            (if dless (Finite (max_accel cfg)) measured_lin_accel
             then dadd last_lin (Finite (max_accel cfg * dt))
             else if dless measured_lin_accel (Finite (- max_decel cfg))
             then dsub last_lin (Finite (max_decel cfg * dt))
             else linear_vel1);
          measured_ang_accel = ddiv (dsub (Finite angular_vel) last_ang) (Finite dt);
          angular_vel2 =
            (if dless (Finite (max_accel cfg)) measured_ang_accel
             then dadd last_ang (Finite (max_accel cfg * dt))
             else if dless measured_ang_accel (Finite (- max_decel cfg))
             then dsub last_ang (Finite (max_decel cfg * dt))
             else Finite angular_vel)
      in (linear_vel2, angular_vel2))"

text \<open>
  The parts of \<^verbatim>\<open>computeVelocityCommands\<close> (lines 160 to 220), in the order of the
  source: the carrot (lines 170 to 181), its distance (lines 184 to 187), the curvature
  (lines 189 to 193), the raw command (lines 195 to 197) and the elapsed time (line 199).

  The lambda of line 173 compares \<open>origin_dist\<close> with the lookahead distance. When
  \<^verbatim>\<open>find_if\<close> returns the end iterator, \<^verbatim>\<open>std::prev\<close> steps back to the last pose; the
  window is not empty there, since \<^verbatim>\<open>transformGlobalPlan\<close> throws on an empty one.
\<close>

definition origin_dist :: "pose_stamped \<Rightarrow> real" where
  "origin_dist p = hypot (pt_x (position (ps_pose p))) (pt_y (position (ps_pose p)))"

definition goal_pose_it :: "pose_stamped list \<Rightarrow> real \<Rightarrow> nat" where
  "goal_pose_it ps lookahead =
     (let it = find_if (\<lambda>p. origin_dist p \<ge> lookahead) ps
      in if it = length ps then length ps - 1 else it)"

definition carrot_pose :: "pose_stamped list \<Rightarrow> real \<Rightarrow> pose" where
  "carrot_pose ps lookahead = ps_pose (ps ! goal_pose_it ps lookahead)"

definition carrot_dist :: "pose_stamped \<Rightarrow> pose \<Rightarrow> real" where
  "carrot_dist pose carrot =
     hypot (pt_x (position (ps_pose pose)) - pt_x (position carrot))
           (pt_y (position (ps_pose pose)) - pt_y (position carrot))"

definition curvature :: "real \<Rightarrow> real \<Rightarrow> real" where
  "curvature carrot_y c_dist = (if c_dist > 0.001 then 2 * carrot_y / (c_dist * c_dist) else 0)"

definition raw_command :: "config \<Rightarrow> real \<Rightarrow> real \<Rightarrow> real \<times> real" where
  "raw_command cfg carrot_y c_dist =
     (desired_linear_vel cfg, desired_linear_vel cfg * curvature carrot_y c_dist)"

definition seconds :: "int \<Rightarrow> real" where
  "seconds ns = real_of_int ns / 1000000000"

definition computeVelocityCommands ::
  "config \<Rightarrow> env \<Rightarrow> state \<Rightarrow> pose_stamped \<Rightarrow> real twist
     \<Rightarrow> (error + double twist_stamped) \<times> state" where
  "computeVelocityCommands cfg e s pose speed =
     (case transformGlobalPlan e s pose of
        (Inl err, s1) \<Rightarrow> (Inl err, s1)
      | (Inr transformed_plan, s1) \<Rightarrow>
          (let lookahead = getLookAheadDistance cfg speed;
               carrot = carrot_pose (poses transformed_plan) lookahead;
               c_dist = carrot_dist pose carrot;
               (linear_vel, angular_vel) = raw_command cfg (pt_y (position carrot)) c_dist;
               dt = seconds (stamp (ps_header pose) - stamp (ts_header (last_cmd s1)));
               (linear_vel1, angular_vel1) =
                 applyKinematicConstraints cfg e s1 linear_vel angular_vel
                   \<bar>lookahead - c_dist\<bar> lookahead dt;
               angular_vel2 = dclamp angular_vel1 (Finite (- max_angular_vel cfg))
                                (Finite (max_angular_vel cfg));
               linear_vel2 = dclamp linear_vel1 (Finite 0) (Finite (desired_linear_vel cfg))
           in if isCollisionImminent e pose carrot then (Inl CollisionAhead, s1)
              else
                (let cmd_vel =
                       \<lparr>ts_header = \<lparr>frame_id = frame_id (ps_header pose), stamp = clock_now e\<rparr>,
                        ts_twist = default_twist
                          \<lparr>linear := (linear default_twist)\<lparr>v_x := linear_vel2\<rparr>,
                           angular := (angular default_twist)\<lparr>v_z := angular_vel2\<rparr>\<rparr>\<rparr>
                 in (Inr cmd_vel, s1\<lparr>last_cmd := cmd_vel\<rparr>))))"

text \<open>\<^verbatim>\<open>setPlan\<close> (lines 262 to 266).\<close>

definition setPlan :: "state \<Rightarrow> path \<Rightarrow> state" where
  "setPlan s p = s\<lparr>global_plan := p, published := p # published s\<rparr>"

section \<open>Concrete ticks\<close>

text \<open>
  One robot, used by the closed theorems below. The plan is in frame \<open>map\<close>; the robot
  stands at \<open>(4, 0)\<close> of that frame with heading zero, so the transform into its base
  frame \<open>base_link\<close> subtracts \<open>(4, 0)\<close>; no other transform is known. The cost grid
  has 100 by 100 cells of 5 cm, and the parameters are the defaults declared by
  \<^verbatim>\<open>configure\<close> (lines 66 to 90).
\<close>

definition pose_at :: "string \<Rightarrow> int \<Rightarrow> real \<Rightarrow> real \<Rightarrow> pose_stamped" where
  "pose_at f t px py =
     \<lparr>ps_header = \<lparr>frame_id = f, stamp = t\<rparr>,
      ps_pose = default_pose\<lparr>position := \<lparr>pt_x = px, pt_y = py, pt_z = 0\<rparr>\<rparr>\<rparr>"

definition ex_tf :: "string \<Rightarrow> pose_stamped \<Rightarrow> pose_stamped option" where
  "ex_tf frame p =
     (if frame = ''base_link'' \<and> frame_id (ps_header p) = ''map''
      then Some (pose_at ''base_link'' (stamp (ps_header p))
                   (pt_x (position (ps_pose p)) - 4) (pt_y (position (ps_pose p))))
      else None)"

definition ex_cfg :: config where
  "ex_cfg =
     \<lparr>desired_linear_vel = 1/2, max_accel = 1, max_decel = 1, lookahead_dist = 2/5,
      min_lookahead_dist = 3/10, max_lookahead_dist = 3/5, lookahead_gain = 3/2,
      max_angular_vel = 1, use_velocity_scaled_lookahead_dist = False\<rparr>"

definition ex_env :: env where
  "ex_env =
     \<lparr>tf_transform = ex_tf, costmap_size_x = 100, costmap_size_y = 100,
      costmap_resolution = 1/20, base_frame_id = ''base_link'', clock_now = 2000000000,
      collision_ret = False\<rparr>"

definition zero_cmd :: "int \<Rightarrow> double twist_stamped" where
  "zero_cmd t = \<lparr>ts_header = \<lparr>frame_id = ''map'', stamp = t\<rparr>, ts_twist = default_twist\<rparr>"

definition plan_of :: "pose_stamped list \<Rightarrow> path" where
  "plan_of ps = \<lparr>path_header = \<lparr>frame_id = ''map'', stamp = 0\<rparr>, poses = ps\<rparr>"

text \<open>The robot's pose, stamped one second after the plan.\<close>

definition ex_pose :: pose_stamped where
  "ex_pose = pose_at ''map'' 1000000000 4 0"

text \<open>A plan of one pose, one metre ahead of the robot; the last command is the zero
  command, stamped \<open>t\<close>.\<close>

definition near_state :: "int \<Rightarrow> state" where
  "near_state t =
     \<lparr>global_plan = plan_of [pose_at ''map'' 0 5 0], last_cmd = zero_cmd t, published = []\<rparr>"

text \<open>A plan whose two poses are ten and five metres ahead, beyond the cost grid.\<close>

definition far_state :: state where
  "far_state =
     \<lparr>global_plan = plan_of [pose_at ''map'' 0 14 0, pose_at ''map'' 0 9 0],
      last_cmd = zero_cmd 0, published = []\<rparr>"

definition ex_speed :: "real twist" where
  "ex_speed = \<lparr>linear = \<lparr>v_x = 0, v_y = 0, v_z = 0\<rparr>, angular = \<lparr>v_x = 0, v_y = 0, v_z = 0\<rparr>\<rparr>"

text \<open>
  A second robot stands at the origin of the map frame, which is also the base frame
  of its cost grid; its plan has the one pose \<open>(1, 1)\<close>.
\<close>

definition diag_env :: env where
  "diag_env = ex_env\<lparr>base_frame_id := ''map''\<rparr>"

definition diag_pose :: pose_stamped where
  "diag_pose = pose_at ''map'' 1000000000 0 0"

definition diag_state :: state where
  "diag_state =
     \<lparr>global_plan = plan_of [pose_at ''map'' 0 1 1], last_cmd = zero_cmd 0, published = []\<rparr>"




section \<open>Iterators and the window\<close>

lemma find_if_le: "find_if P xs \<le> length xs"
  by (induction xs) auto

lemma find_if_0_iff: "xs \<noteq> [] \<Longrightarrow> find_if P xs = 0 \<longleftrightarrow> P (hd xs)"
  by (cases xs) auto

lemma min_by_loop_lt:
  "lowest_it < i \<Longrightarrow> min_by_loop f ys i lowest lowest_it < i + length ys"
proof (induction ys arbitrary: i lowest lowest_it)
  case Nil
  then show ?case by simp
next
  case (Cons y ys)
  have "min_by_loop f ys (Suc i) (f y) i < Suc i + length ys"
    by (rule Cons.IH) simp
  moreover have "min_by_loop f ys (Suc i) lowest lowest_it < Suc i + length ys"
    by (rule Cons.IH) (use Cons.prems in simp)
  ultimately show ?case by (simp add: Let_def)
qed

lemma min_by_lt: "xs \<noteq> [] \<Longrightarrow> min_by f xs < length xs"
proof (cases xs)
  case Nil
  assume "xs \<noteq> []"
  with Nil show ?thesis by simp
next
  case (Cons y ys)
  have "min_by_loop f ys 1 (f y) 0 < 1 + length ys"
    by (rule min_by_loop_lt) simp
  with Cons show ?thesis by simp
qed

lemma length_transformGlobalPoseToLocal:
  "length (transformGlobalPoseToLocal e f t gs tp) = length gs"
  by (induction gs arbitrary: tp) (auto simp: Let_def)

lemma transformGlobalPoseToLocal_nth:
  "i < length gs \<Longrightarrow>
   transformGlobalPoseToLocal e f t gs tp ! i =
     snd (transformPose e (base_frame_id e)
            \<lparr>ps_header = \<lparr>frame_id = f, stamp = t\<rparr>, ps_pose = ps_pose (gs ! i)\<rparr>
            (if i = 0 then tp else transformGlobalPoseToLocal e f t gs tp ! (i - 1)))"
proof (induction gs arbitrary: tp i)
  case Nil
  then show ?case by simp
next
  case (Cons g gs)
  show ?case
  proof (cases i)
    case 0
    then show ?thesis by (simp add: Let_def)
  next
    case (Suc k)
    with Cons.prems have k: "k < length gs" by simp
    show ?thesis
    proof (cases k)
      case 0
      with Suc k Cons.IH [OF k] show ?thesis by (simp add: Let_def)
    next
      case (Suc m)
      with \<open>i = Suc k\<close> k Cons.IH [OF k] show ?thesis by (simp add: Let_def)
    qed
  qed
qed

lemma transformation_begin_lt:
  "ps \<noteq> [] \<Longrightarrow> transformation_begin robot_pose ps < length ps"
  by (simp add: transformation_begin_def min_by_lt)

lemma transformation_end_bounds:
  "ps \<noteq> [] \<Longrightarrow>
   transformation_begin robot_pose ps \<le> transformation_end e robot_pose ps
   \<and> transformation_end e robot_pose ps \<le> length ps"
  using find_if_le [of "\<lambda>p. euclidean_distance robot_pose p > max_transform_dist e"
      "drop (transformation_begin robot_pose ps) ps"]
    transformation_begin_lt [of ps robot_pose]
  by (simp add: transformation_end_def Let_def)

lemma transformation_end_eq_begin:
  assumes "ps \<noteq> []"
  shows "transformation_end e robot_pose ps = transformation_begin robot_pose ps \<longleftrightarrow>
         euclidean_distance robot_pose (ps ! transformation_begin robot_pose ps) > max_transform_dist e"
proof -
  let ?b = "transformation_begin robot_pose ps"
  from assms have "?b < length ps" by (rule transformation_begin_lt)
  then have "drop ?b ps \<noteq> []" and "hd (drop ?b ps) = ps ! ?b"
    by (simp_all add: hd_drop_conv_nth)
  then show ?thesis
    by (simp add: transformation_end_def Let_def find_if_0_iff)
qed

lemma transformGlobalPlan_robot_ok:
  assumes "poses (global_plan s) \<noteq> []"
    and "transformPose e (frame_id (path_header (global_plan s))) pose default_pose_stamped
         = (True, robot_pose)"
  shows "transformGlobalPlan e s pose =
     (let b = transformation_begin robot_pose (poses (global_plan s));
          en = transformation_end e robot_pose (poses (global_plan s));
          transformed_plan =
            \<lparr>path_header = \<lparr>frame_id = base_frame_id e, stamp = stamp (ps_header robot_pose)\<rparr>,
             poses = transformGlobalPoseToLocal e (frame_id (path_header (global_plan s)))
                       (stamp (ps_header robot_pose))
                       (take (en - b) (drop b (poses (global_plan s)))) default_pose_stamped\<rparr>;
          s1 = s\<lparr>global_plan := (global_plan s)\<lparr>poses := drop b (poses (global_plan s))\<rparr>,
                 published := transformed_plan # published s\<rparr>
      in if en = b then (Inl EmptyResultingPlan, s1) else (Inr transformed_plan, s1))"
proof -
  let ?ps = "poses (global_plan s)"
  let ?b = "transformation_begin robot_pose ?ps"
  let ?en = "transformation_end e robot_pose ?ps"
  let ?w = "transformGlobalPoseToLocal e (frame_id (path_header (global_plan s)))
              (stamp (ps_header robot_pose)) (take (?en - ?b) (drop ?b ?ps)) default_pose_stamped"
  from assms(1) have bnd: "?b < length ?ps" "?b \<le> ?en" "?en \<le> length ?ps"
    using transformation_begin_lt [of ?ps robot_pose]
      transformation_end_bounds [of ?ps robot_pose e] by simp_all
  have "length ?w = ?en - ?b"
    using bnd by (simp add: length_transformGlobalPoseToLocal)
  then have "?w = [] \<longleftrightarrow> ?en = ?b"
    using bnd by (metis diff_is_0_eq le_antisym length_0_conv)
  with assms show ?thesis
    by (simp add: transformGlobalPlan_def Let_def)
qed

lemma transformGlobalPlan_error_state:
  assumes "transformGlobalPlan e s pose = (r, s1)"
  shows "last_cmd s1 = last_cmd s
       \<and> path_header (global_plan s1) = path_header (global_plan s)
       \<and> (if r = Inl ZeroLengthPlan \<or> r = Inl RobotTransformFailed then s1 = s
          else poses (global_plan s1) =
                 drop (transformation_begin
                         (snd (transformPose e (frame_id (path_header (global_plan s))) pose
                                 default_pose_stamped))
                         (poses (global_plan s)))
                   (poses (global_plan s)))"
proof (cases "poses (global_plan s) = []")
  case True
  with assms show ?thesis by (auto simp: transformGlobalPlan_def)
next
  case False
  obtain ok robot_pose where tp:
    "transformPose e (frame_id (path_header (global_plan s))) pose default_pose_stamped
     = (ok, robot_pose)"
    by (cases "transformPose e (frame_id (path_header (global_plan s))) pose default_pose_stamped")
  show ?thesis
  proof (cases ok)
    case False
    with \<open>poses (global_plan s) \<noteq> []\<close> tp assms show ?thesis
      by (auto simp: transformGlobalPlan_def)
  next
    case True
    with tp transformGlobalPlan_robot_ok [OF \<open>poses (global_plan s) \<noteq> []\<close>, of e pose robot_pose]
      assms show ?thesis
      by (auto simp: Let_def split: if_splits)
  qed
qed

section \<open>The concrete ticks, evaluated\<close>

lemma hypot_0_right: "hypot a 0 = \<bar>a\<bar>"
  by (simp add: hypot_def)

lemma dist_on_axis:
  "euclidean_distance (pose_at f t a 0) (pose_at g u b 0) = \<bar>a - b\<bar>"
  by (simp add: euclidean_distance_def pose_at_def default_pose_def hypot_0_right)

lemma ex_robot_pose:
  "transformPose (ex_env\<lparr>collision_ret := c\<rparr>) ''map'' ex_pose default_pose_stamped = (True, ex_pose)"
  by (simp add: transformPose_def ex_pose_def pose_at_def)

lemma near_window:
  "transformGlobalPlan (ex_env\<lparr>collision_ret := c\<rparr>) (near_state t) ex_pose =
     (Inr \<lparr>path_header = \<lparr>frame_id = ''base_link'', stamp = 1000000000\<rparr>,
           poses = [pose_at ''base_link'' 1000000000 1 0]\<rparr>,
      (near_state t)\<lparr>published :=
         [\<lparr>path_header = \<lparr>frame_id = ''base_link'', stamp = 1000000000\<rparr>,
           poses = [pose_at ''base_link'' 1000000000 1 0]\<rparr>]\<rparr>)"
  apply (simp add: transformGlobalPlan_def near_state_def plan_of_def ex_robot_pose
      transformation_begin_def transformation_end_def max_transform_dist_def)
  apply (simp add: ex_pose_def dist_on_axis ex_env_def Let_def)
  apply (simp add: transformPose_def pose_at_def ex_tf_def default_pose_def)
  done

lemma carrot_single: "carrot_pose [p] la = ps_pose p"
  by (simp add: carrot_pose_def goal_pose_it_def)

lemma near_carrot_dist:
  "carrot_dist ex_pose (ps_pose (pose_at ''base_link'' 1000000000 1 0)) = 3"
  by (simp add: carrot_dist_def ex_pose_def pose_at_def default_pose_def hypot_0_right)

lemma tick_after_window:
  assumes "transformGlobalPlan e s pose = (Inr w, s1)"
  shows "computeVelocityCommands cfg e s pose speed =
     (let la = getLookAheadDistance cfg speed;
          carrot = carrot_pose (poses w) la;
          d = carrot_dist pose carrot;
          out = applyKinematicConstraints cfg e s1 (desired_linear_vel cfg)
                  (desired_linear_vel cfg * curvature (pt_y (position carrot)) d)
                  \<bar>la - d\<bar> la
                  (seconds (stamp (ps_header pose) - stamp (ts_header (last_cmd s1))));
          cmd_vel =
            \<lparr>ts_header = \<lparr>frame_id = frame_id (ps_header pose), stamp = clock_now e\<rparr>,
             ts_twist =
               \<lparr>linear = \<lparr>v_x = dclamp (fst out) (Finite 0) (Finite (desired_linear_vel cfg)),
                           v_y = Finite 0, v_z = Finite 0\<rparr>,
                angular = \<lparr>v_x = Finite 0, v_y = Finite 0,
                            v_z = dclamp (snd out) (Finite (- max_angular_vel cfg))
                                    (Finite (max_angular_vel cfg))\<rparr>\<rparr>\<rparr>
      in if isCollisionImminent e pose carrot then (Inl CollisionAhead, s1)
         else (Inr cmd_vel, s1\<lparr>last_cmd := cmd_vel\<rparr>))"
  using assms
  by (simp add: computeVelocityCommands_def raw_command_def default_twist_def Let_def
      split: prod.splits)

lemma near_tick_cfg:
  assumes "\<not> use_velocity_scaled_lookahead_dist cfg"
  shows "computeVelocityCommands cfg (ex_env\<lparr>collision_ret := c\<rparr>) (near_state t) ex_pose ex_speed =
     (let s1 = (near_state t)\<lparr>published :=
                 [\<lparr>path_header = \<lparr>frame_id = ''base_link'', stamp = 1000000000\<rparr>,
                   poses = [pose_at ''base_link'' 1000000000 1 0]\<rparr>]\<rparr>;
          out = applyKinematicConstraints cfg (ex_env\<lparr>collision_ret := c\<rparr>) s1
                  (desired_linear_vel cfg) 0 \<bar>lookahead_dist cfg - 3\<bar> (lookahead_dist cfg)
                  (seconds (1000000000 - t));
          cmd_vel =
            \<lparr>ts_header = \<lparr>frame_id = ''map'', stamp = 2000000000\<rparr>,
             ts_twist =
               \<lparr>linear = \<lparr>v_x = dclamp (fst out) (Finite 0) (Finite (desired_linear_vel cfg)),
                           v_y = Finite 0, v_z = Finite 0\<rparr>,
                angular = \<lparr>v_x = Finite 0, v_y = Finite 0,
                            v_z = dclamp (snd out) (Finite (- max_angular_vel cfg))
                                    (Finite (max_angular_vel cfg))\<rparr>\<rparr>\<rparr>
      in if c then (Inl CollisionAhead, s1) else (Inr cmd_vel, s1\<lparr>last_cmd := cmd_vel\<rparr>))"
proof -
  have la: "getLookAheadDistance cfg ex_speed = lookahead_dist cfg"
    using assms by (simp add: getLookAheadDistance_def)
  have y: "pt_y (position (ps_pose (pose_at ''base_link'' 1000000000 1 0))) = 0"
    by (simp add: pose_at_def default_pose_def)
  have k: "curvature 0 d = 0" for d
    by (simp add: curvature_def)
  have lc: "stamp (ts_header (last_cmd (near_state t))) = t"
    by (simp add: near_state_def zero_cmd_def)
  have hd: "frame_id (ps_header ex_pose) = ''map''" "stamp (ps_header ex_pose) = 1000000000"
    "clock_now ex_env = 2000000000"
    by (simp_all add: ex_pose_def pose_at_def ex_env_def)
  show ?thesis
    unfolding tick_after_window [OF near_window]
    by (simp add: la carrot_single near_carrot_dist y k lc hd isCollisionImminent_def Let_def)
qed

lemma near_limited:
  "applyKinematicConstraints ex_cfg (ex_env\<lparr>collision_ret := c\<rparr>)
     ((near_state t)\<lparr>published := pl\<rparr>) (1/2) 0 (13/5) (2/5) (- 1) = (Finite 1, Finite 0)"
  "applyKinematicConstraints ex_cfg (ex_env\<lparr>collision_ret := c\<rparr>)
     ((near_state t)\<lparr>published := pl\<rparr>) (1/2) 0 (13/5) (2/5) 1 = (Finite 1, Finite 0)"
  by (simp_all add: applyKinematicConstraints_def ex_cfg_def ex_env_def near_state_def
      zero_cmd_def default_twist_def dsub_def Let_def)

lemma near_tick:
  assumes "t = 0 \<or> t = 2000000000"
  shows "computeVelocityCommands ex_cfg (ex_env\<lparr>collision_ret := c\<rparr>) (near_state t) ex_pose ex_speed =
     (let s1 = (near_state t)\<lparr>published :=
                 [\<lparr>path_header = \<lparr>frame_id = ''base_link'', stamp = 1000000000\<rparr>,
                   poses = [pose_at ''base_link'' 1000000000 1 0]\<rparr>]\<rparr>;
          cmd_vel = \<lparr>ts_header = \<lparr>frame_id = ''map'', stamp = 2000000000\<rparr>,
                     ts_twist = \<lparr>linear = \<lparr>v_x = Finite (1/2), v_y = Finite 0, v_z = Finite 0\<rparr>,
                                 angular = \<lparr>v_x = Finite 0, v_y = Finite 0, v_z = Finite 0\<rparr>\<rparr>\<rparr>
      in if c then (Inl CollisionAhead, s1) else (Inr cmd_vel, s1\<lparr>last_cmd := cmd_vel\<rparr>))"
proof -
  have sc: "\<not> use_velocity_scaled_lookahead_dist ex_cfg"
    and cf: "desired_linear_vel ex_cfg = 1/2" "lookahead_dist ex_cfg = 2/5"
      "max_angular_vel ex_cfg = 1"
    by (simp_all add: ex_cfg_def)
  have dt: "seconds (1000000000 - t) = - 1 \<or> seconds (1000000000 - t) = 1"
    using assms by (auto simp: seconds_def)
  then show ?thesis
    unfolding near_tick_cfg [OF sc] cf
    by (auto simp: near_limited dclamp_def Let_def)
qed

lemma ex_robot_pose0:
  "transformPose ex_env ''map'' ex_pose default_pose_stamped = (True, ex_pose)"
  by (simp add: transformPose_def ex_pose_def pose_at_def)

lemma far_window:
  "transformGlobalPlan ex_env far_state ex_pose =
     (Inl EmptyResultingPlan,
      far_state\<lparr>global_plan := plan_of [pose_at ''map'' 0 9 0],
                published := [\<lparr>path_header = \<lparr>frame_id = ''base_link'', stamp = 1000000000\<rparr>,
                               poses = []\<rparr>]\<rparr>)"
  apply (simp add: transformGlobalPlan_def far_state_def plan_of_def ex_robot_pose0
      transformation_begin_def transformation_end_def max_transform_dist_def)
  apply (simp add: ex_pose_def dist_on_axis ex_env_def Let_def)
  apply (simp add: pose_at_def)
  done

lemma sqrt2_bounds: "6/5 < sqrt 2" "sqrt 2 < 3/2"
proof -
  show "6/5 < sqrt 2"
    by (rule real_less_rsqrt) (simp add: power2_eq_square)
  show "sqrt 2 < 3/2"
    by (rule real_less_lsqrt) (simp_all add: power2_eq_square)
qed

lemma hypot_diag: "hypot (- 1) (- 1) = sqrt 2" "hypot 1 1 = sqrt 2"
  by (simp_all add: hypot_def)

lemma diag_window:
  "transformGlobalPlan diag_env diag_state diag_pose =
     (Inr \<lparr>path_header = \<lparr>frame_id = ''map'', stamp = 1000000000\<rparr>,
           poses = [pose_at ''map'' 1000000000 1 1]\<rparr>,
      diag_state\<lparr>published :=
         [\<lparr>path_header = \<lparr>frame_id = ''map'', stamp = 1000000000\<rparr>,
           poses = [pose_at ''map'' 1000000000 1 1]\<rparr>]\<rparr>)"
proof -
  have rp: "transformPose diag_env ''map'' diag_pose default_pose_stamped = (True, diag_pose)"
    by (simp add: transformPose_def diag_pose_def pose_at_def)
  have d: "euclidean_distance diag_pose (pose_at ''map'' 0 1 1) = sqrt 2"
    by (simp add: euclidean_distance_def diag_pose_def pose_at_def default_pose_def hypot_diag)
  have m: "max_transform_dist diag_env = 5/2"
    by (simp add: max_transform_dist_def diag_env_def ex_env_def)
  have en: "transformation_begin diag_pose [pose_at ''map'' 0 1 1] = 0"
    "transformation_end diag_env diag_pose [pose_at ''map'' 0 1 1] = 1"
    using sqrt2_bounds(2) by (simp_all add: transformation_begin_def transformation_end_def d m)
  have hd: "stamp (ps_header diag_pose) = 1000000000" "base_frame_id diag_env = ''map''"
    by (simp_all add: diag_pose_def pose_at_def diag_env_def ex_env_def)
  show ?thesis
    by (simp add: transformGlobalPlan_def diag_state_def plan_of_def rp en hd Let_def)
      (simp add: transformPose_def pose_at_def)
qed

lemma diag_limited:
  "applyKinematicConstraints ex_cfg diag_env (diag_state\<lparr>published := pl\<rparr>) (1/2) (1/2)
     (sqrt 2 - 2/5) (2/5) 1 = (Finite 1, Finite (1/2))"
proof -
  have a: "1 / 10 < sqrt 2 - 2/5" "1 < (sqrt 2 - 2/5) / (2 / 5) / 2"
    using sqrt2_bounds(1) by (simp_all add: field_simps)
  have c: "max_accel ex_cfg = 1" "max_decel ex_cfg = 1" "costmap_resolution diag_env = 1/20"
    "v_x (linear (ts_twist (last_cmd diag_state))) = Finite 0"
    "v_z (angular (ts_twist (last_cmd diag_state))) = Finite 0"
    by (simp_all add: ex_cfg_def diag_env_def ex_env_def diag_state_def zero_cmd_def
        default_twist_def)
  show ?thesis
    using a by (simp add: applyKinematicConstraints_def c dsub_def Let_def)
qed

lemma diag_tick:
  "computeVelocityCommands ex_cfg diag_env diag_state diag_pose ex_speed =
     (let cmd_vel = \<lparr>ts_header = \<lparr>frame_id = ''map'', stamp = 2000000000\<rparr>,
                     ts_twist = \<lparr>linear = \<lparr>v_x = Finite (1/2), v_y = Finite 0, v_z = Finite 0\<rparr>,
                                 angular = \<lparr>v_x = Finite 0, v_y = Finite 0, v_z = Finite (1/2)\<rparr>\<rparr>\<rparr>
      in (Inr cmd_vel,
          diag_state\<lparr>published :=
             [\<lparr>path_header = \<lparr>frame_id = ''map'', stamp = 1000000000\<rparr>,
               poses = [pose_at ''map'' 1000000000 1 1]\<rparr>],
            last_cmd := cmd_vel\<rparr>))"
proof -
  have la: "getLookAheadDistance ex_cfg ex_speed = 2/5"
    by (simp add: getLookAheadDistance_def ex_cfg_def)
  have y: "pt_y (position (ps_pose (pose_at ''map'' 1000000000 1 1))) = 1"
    by (simp add: pose_at_def default_pose_def)
  have d: "carrot_dist diag_pose (ps_pose (pose_at ''map'' 1000000000 1 1)) = sqrt 2"
    by (simp add: carrot_dist_def diag_pose_def pose_at_def default_pose_def hypot_diag)
  have k: "curvature 1 (sqrt 2) = 1"
    using sqrt2_bounds(1) by (simp add: curvature_def)
  have de: "\<bar>2/5 - sqrt 2\<bar> = sqrt 2 - 2/5"
    using sqrt2_bounds(1) by simp
  have dt: "seconds (stamp (ps_header diag_pose) - stamp (ts_header (last_cmd diag_state))) = 1"
    by (simp add: seconds_def diag_pose_def pose_at_def diag_state_def zero_cmd_def)
  have cf: "desired_linear_vel ex_cfg = 1/2" "max_angular_vel ex_cfg = 1"
    by (simp_all add: ex_cfg_def)
  have hd: "frame_id (ps_header diag_pose) = ''map''" "clock_now diag_env = 2000000000"
    "\<not> collision_ret diag_env"
    by (simp_all add: diag_pose_def pose_at_def diag_env_def ex_env_def)
  show ?thesis
    unfolding tick_after_window [OF diag_window]
    by (simp add: la carrot_single y d k de dt cf hd diag_limited dclamp_def
        isCollisionImminent_def Let_def)
qed







lemma find_if_lt_iff: "find_if P xs < length xs \<longleftrightarrow> (\<exists>x\<in>set xs. P x)"
  by (induction xs) auto

lemma find_if_holds: "find_if P xs < length xs \<Longrightarrow> P (xs ! find_if P xs)"
  by (induction xs) (auto split: if_splits)

lemma find_if_first: "j < find_if P xs \<Longrightarrow> \<not> P (xs ! j)"
proof (induction xs arbitrary: j)
  case Nil
  then show ?case by simp
next
  case (Cons y ys)
  then show ?case by (cases j) (auto split: if_splits)
qed

lemma origin_dist_on_axis: "origin_dist (pose_at f t a 0) = \<bar>a\<bar>"
  by (simp add: origin_dist_def pose_at_def default_pose_def hypot_0_right)




section \<open>The claims\<close>

subsection \<open>C1: the collision check\<close>

text \<open>
  Claim C1 asks that \<^verbatim>\<open>isCollisionImminent\<close> return \<open>False\<close> for every pair of poses, so
  that no tick fails on a collision. The function has no \<^verbatim>\<open>return\<close> statement, so the
  value its caller reads is not fixed by the source; when that value is \<open>True\<close>, the
  tick of the robot one metre from the only pose of its plan throws the
  \<^verbatim>\<open>runtime_error\<close> of line 209.
\<close>

theorem collision_stub_failing_tick:
  "isCollisionImminent (ex_env\<lparr>collision_ret := True\<rparr>) ex_pose
     (ps_pose (pose_at ''base_link'' 1000000000 1 0)) = True
   \<and> fst (computeVelocityCommands ex_cfg (ex_env\<lparr>collision_ret := True\<rparr>) (near_state 0)
            ex_pose ex_speed) = Inl CollisionAhead"
  using near_tick [of 0 True] by (simp add: isCollisionImminent_def Let_def)

subsection \<open>C2: the bounds of the emitted command\<close>




subsection \<open>C3: what a failing tick leaves behind\<close>

text \<open>
  Claim C3, as the code has it. When \<^verbatim>\<open>computeVelocityCommands\<close> throws, the last
  emitted command and the header of the held plan are what they were before the tick.
  When the exception is the one for a plan with zero poses or for the robot pose that
  could not be transformed, no member has changed at all. When it is the one for an
  empty resulting window or for an imminent collision, the held plan has already lost
  the poses before the one closest to the robot: line 324 erases them before the
  checks of lines 327 and 207.
\<close>

theorem failing_tick_state:
  assumes "computeVelocityCommands cfg e s pose speed = (Inl err, s')"
  shows "last_cmd s' = last_cmd s
       \<and> path_header (global_plan s') = path_header (global_plan s)
       \<and> (if err = ZeroLengthPlan \<or> err = RobotTransformFailed then s' = s
          else poses (global_plan s') =
                 drop (transformation_begin
                         (snd (transformPose e (frame_id (path_header (global_plan s))) pose
                                 default_pose_stamped))
                         (poses (global_plan s)))
                   (poses (global_plan s)))"
proof -
  obtain r s1 where t: "transformGlobalPlan e s pose = (r, s1)"
    by (cases "transformGlobalPlan e s pose")
  note st = transformGlobalPlan_error_state [OF t]
  show ?thesis
  proof (cases r)
    case (Inl err1)
    with t assms have "err1 = err" "s' = s1"
      by (simp_all add: computeVelocityCommands_def)
    with Inl st show ?thesis by simp
  next
    case (Inr w)
    with t assms have "err = CollisionAhead" "s' = s1"
      by (auto simp: computeVelocityCommands_def Let_def split: prod.splits if_splits)
    with Inr st show ?thesis by simp
  qed
qed

text \<open>
  The theorem at the plan whose poses are ten and five metres from the robot: the
  tick fails on the empty window and the first of the two poses is gone.
\<close>

theorem failing_tick_state_witness:
  "computeVelocityCommands ex_cfg ex_env far_state ex_pose ex_speed
     = (Inl EmptyResultingPlan,
        far_state\<lparr>global_plan := plan_of [pose_at ''map'' 0 9 0],
                  published := [\<lparr>path_header = \<lparr>frame_id = ''base_link'', stamp = 1000000000\<rparr>,
                                 poses = []\<rparr>]\<rparr>)
   \<and> last_cmd (snd (computeVelocityCommands ex_cfg ex_env far_state ex_pose ex_speed))
       = last_cmd far_state
   \<and> poses (global_plan (snd (computeVelocityCommands ex_cfg ex_env far_state ex_pose ex_speed)))
       = drop 1 (poses (global_plan far_state))"
proof -
  let ?s' = "far_state\<lparr>global_plan := plan_of [pose_at ''map'' 0 9 0],
                  published := [\<lparr>path_header = \<lparr>frame_id = ''base_link'', stamp = 1000000000\<rparr>,
                                 poses = []\<rparr>]\<rparr>"
  have t: "computeVelocityCommands ex_cfg ex_env far_state ex_pose ex_speed
           = (Inl EmptyResultingPlan, ?s')"
    by (simp add: computeVelocityCommands_def far_window)
  have "drop 1 (poses (global_plan far_state)) = [pose_at ''map'' 0 9 0]"
    by (simp add: far_state_def plan_of_def)
  with failing_tick_state [OF t] t show ?thesis
    by (simp add: plan_of_def)
qed

text \<open>
  C3 as stated fails there: the tick ends in an error and the held plan is not the
  one from before the tick.
\<close>

theorem pruned_on_error_counterexample:
  "fst (computeVelocityCommands ex_cfg ex_env far_state ex_pose ex_speed) = Inl EmptyResultingPlan
   \<and> poses (global_plan far_state) = [pose_at ''map'' 0 14 0, pose_at ''map'' 0 9 0]
   \<and> poses (global_plan (snd (computeVelocityCommands ex_cfg ex_env far_state ex_pose ex_speed)))
       = [pose_at ''map'' 0 9 0]
   \<and> global_plan (snd (computeVelocityCommands ex_cfg ex_env far_state ex_pose ex_speed))
       \<noteq> global_plan far_state"
proof -
  have t: "computeVelocityCommands ex_cfg ex_env far_state ex_pose ex_speed
           = (Inl EmptyResultingPlan,
              far_state\<lparr>global_plan := plan_of [pose_at ''map'' 0 9 0],
                  published := [\<lparr>path_header = \<lparr>frame_id = ''base_link'', stamp = 1000000000\<rparr>,
                                 poses = []\<rparr>]\<rparr>)"
    by (simp add: computeVelocityCommands_def far_window)
  show ?thesis
    unfolding t by (simp add: far_state_def plan_of_def)
qed

subsection \<open>C4: an elapsed time that is not positive\<close>

text \<open>
  Claim C4, as the code has it. \<^verbatim>\<open>applyKinematicConstraints\<close> returns nothing and throws
  nothing, and no line of the source compares \<open>dt\<close> with zero. So for an elapsed time
  \<open>dt \<le> 0\<close> too, a tick whose window is not empty and whose collision check reads
  \<open>False\<close> emits a command, stamped with the clock, and stores it as the last command;
  its velocities are what the two clamps make of the limiter's output.
\<close>

theorem nonpositive_dt_tick_emits:
  assumes "seconds (stamp (ps_header pose) - stamp (ts_header (last_cmd s))) \<le> 0"
    and "transformGlobalPlan e s pose = (Inr w, s1)"
    and "\<not> isCollisionImminent e pose
             (carrot_pose (poses w) (getLookAheadDistance cfg speed))"
  shows "\<exists>cmd. computeVelocityCommands cfg e s pose speed = (Inr cmd, s1\<lparr>last_cmd := cmd\<rparr>)
              \<and> ts_header cmd = \<lparr>frame_id = frame_id (ps_header pose), stamp = clock_now e\<rparr>
              \<and> (let la = getLookAheadDistance cfg speed;
                      carrot = carrot_pose (poses w) la;
                      d = carrot_dist pose carrot;
                      out = applyKinematicConstraints cfg e s1 (desired_linear_vel cfg)
                              (desired_linear_vel cfg * curvature (pt_y (position carrot)) d)
                              \<bar>la - d\<bar> la
                              (seconds (stamp (ps_header pose) - stamp (ts_header (last_cmd s1))))
                  in v_x (linear (ts_twist cmd))
                       = dclamp (fst out) (Finite 0) (Finite (desired_linear_vel cfg))
                   \<and> v_z (angular (ts_twist cmd))
                       = dclamp (snd out) (Finite (- max_angular_vel cfg))
                           (Finite (max_angular_vel cfg)))"
  unfolding tick_after_window [OF assms(2)] using assms(3)
  by (simp add: Let_def)

text \<open>
  The theorem at a robot pose stamped one second before the last command.
\<close>

theorem nonpositive_dt_tick_emits_witness:
  "seconds (stamp (ps_header ex_pose) - stamp (ts_header (last_cmd (near_state 2000000000)))) = - 1
   \<and> isl (fst (transformGlobalPlan ex_env (near_state 2000000000) ex_pose)) = False
   \<and> isCollisionImminent ex_env ex_pose
        (carrot_pose (poses (projr (fst (transformGlobalPlan ex_env (near_state 2000000000) ex_pose))))
           (getLookAheadDistance ex_cfg ex_speed)) = False
   \<and> isl (fst (computeVelocityCommands ex_cfg ex_env (near_state 2000000000) ex_pose ex_speed))
       = False"
proof -
  let ?s = "near_state 2000000000"
  have dt: "seconds (stamp (ps_header ex_pose) - stamp (ts_header (last_cmd ?s))) = - 1"
    by (simp add: seconds_def ex_pose_def pose_at_def near_state_def zero_cmd_def)
  obtain w s1 where g: "transformGlobalPlan ex_env ?s ex_pose = (Inr w, s1)"
    using near_window [of False 2000000000] by (simp add: ex_env_def)
  have nc: "\<not> isCollisionImminent ex_env ex_pose
               (carrot_pose (poses w) (getLookAheadDistance ex_cfg ex_speed))"
    by (simp add: isCollisionImminent_def ex_env_def)
  from dt have le: "seconds (stamp (ps_header ex_pose) - stamp (ts_header (last_cmd ?s))) \<le> 0"
    by simp
  from nonpositive_dt_tick_emits [OF le g nc] dt g nc show ?thesis
    by auto
qed

text \<open>
  C4 as stated fails there: with \<open>dt = - 1\<close> the limiter returns the velocities
  \<open>(1, 0)\<close> and the tick emits the command \<open>(0.5, 0)\<close>.
\<close>

theorem negative_dt_counterexample:
  "seconds (stamp (ps_header ex_pose) - stamp (ts_header (last_cmd (near_state 2000000000)))) = - 1
   \<and> applyKinematicConstraints ex_cfg ex_env (near_state 2000000000) (1/2) 0 (13/5) (2/5) (- 1)
       = (Finite 1, Finite 0)
   \<and> fst (computeVelocityCommands ex_cfg ex_env (near_state 2000000000) ex_pose ex_speed)
       = Inr \<lparr>ts_header = \<lparr>frame_id = ''map'', stamp = 2000000000\<rparr>,
              ts_twist = \<lparr>linear = \<lparr>v_x = Finite (1/2), v_y = Finite 0, v_z = Finite 0\<rparr>,
                          angular = \<lparr>v_x = Finite 0, v_y = Finite 0, v_z = Finite 0\<rparr>\<rparr>\<rparr>"
proof -
  have "seconds (stamp (ps_header ex_pose) - stamp (ts_header (last_cmd (near_state 2000000000)))) = - 1"
    by (simp add: seconds_def ex_pose_def pose_at_def near_state_def zero_cmd_def)
  moreover have "applyKinematicConstraints ex_cfg ex_env (near_state 2000000000) (1/2) 0 (13/5) (2/5) (- 1)
       = (Finite 1, Finite 0)"
    by (simp add: applyKinematicConstraints_def ex_cfg_def ex_env_def near_state_def
      zero_cmd_def default_twist_def dsub_def Let_def)
  ultimately show ?thesis
    using near_tick [of 2000000000 False] by (simp add: ex_env_def Let_def)
qed

subsection \<open>C5: setPlan\<close>

text \<open>
  Claim C5, as the code has it. \<^verbatim>\<open>setPlan\<close> publishes the incoming path and makes it
  the held path, whatever its number of poses, and leaves the last command alone; it
  has no failure. A path with zero poses is refused by the next tick only, which
  throws the exception of line 273 and changes nothing.
\<close>

theorem setPlan_replaces_any_path:
  "global_plan (setPlan s p) = p
   \<and> last_cmd (setPlan s p) = last_cmd s
   \<and> published (setPlan s p) = p # published s
   \<and> computeVelocityCommands cfg e (setPlan s (p\<lparr>poses := []\<rparr>)) pose speed
       = (Inl ZeroLengthPlan, setPlan s (p\<lparr>poses := []\<rparr>))"
  by (simp add: setPlan_def computeVelocityCommands_def transformGlobalPlan_def)

text \<open>
  C5 as stated fails for the held plan of one pose and an incoming path with zero
  poses: the held path is the incoming one afterwards, not the one from before.
\<close>

theorem setPlan_empty_counterexample:
  "poses (plan_of []) = []
   \<and> global_plan (setPlan (near_state 0) (plan_of [])) = plan_of []
   \<and> global_plan (setPlan (near_state 0) (plan_of [])) \<noteq> global_plan (near_state 0)"
  by (simp add: setPlan_def near_state_def plan_of_def)

subsection \<open>C6: the distance to the carrot\<close>

text \<open>
  Claim C6 asks that the distance that goes into the curvature be the distance of the
  carrot from the origin of the robot's frame. Lines 185 to 187 subtract the carrot,
  which is in the base frame, from the pose argument, which is in the frame of its
  caller. For the robot at \<open>(4, 0)\<close> of the map frame and the carrot at \<open>(1, 0)\<close> of the
  base frame, the carrot is 1 m from the origin and \<open>carrot_dist\<close> is 3 m.
\<close>

theorem carrot_dist_mixes_frames:
  "fst (transformGlobalPlan ex_env (near_state 0) ex_pose)
     = Inr \<lparr>path_header = \<lparr>frame_id = ''base_link'', stamp = 1000000000\<rparr>,
            poses = [pose_at ''base_link'' 1000000000 1 0]\<rparr>
   \<and> carrot_pose [pose_at ''base_link'' 1000000000 1 0] (getLookAheadDistance ex_cfg ex_speed)
       = ps_pose (pose_at ''base_link'' 1000000000 1 0)
   \<and> hypot (pt_x (position (ps_pose (pose_at ''base_link'' 1000000000 1 0))))
            (pt_y (position (ps_pose (pose_at ''base_link'' 1000000000 1 0)))) = 1
   \<and> carrot_dist ex_pose (ps_pose (pose_at ''base_link'' 1000000000 1 0)) = 3"
proof -
  have w: "fst (transformGlobalPlan ex_env (near_state 0) ex_pose)
     = Inr \<lparr>path_header = \<lparr>frame_id = ''base_link'', stamp = 1000000000\<rparr>,
            poses = [pose_at ''base_link'' 1000000000 1 0]\<rparr>"
    using near_window [of False 0] by (simp add: ex_env_def)
  have la: "getLookAheadDistance ex_cfg ex_speed = 2/5"
    by (simp add: getLookAheadDistance_def ex_cfg_def)
  have h: "hypot (pt_x (position (ps_pose (pose_at ''base_link'' 1000000000 1 0))))
            (pt_y (position (ps_pose (pose_at ''base_link'' 1000000000 1 0)))) = 1"
    using origin_dist_on_axis [of "''base_link''" 1000000000 1] by (simp add: origin_dist_def)
  show ?thesis
    unfolding la w h by (simp add: carrot_single near_carrot_dist)
qed

subsection \<open>C7: curvature and the raw command\<close>

text \<open>
  Claim C7. The curvature is \<open>2 y / d\<^sup>2\<close> when \<open>d\<close> is above 0.001 and zero otherwise, the
  raw linear velocity is the desired one and the raw angular velocity the desired one
  times the curvature, and this is the raw command of every tick: when the window is
  not empty and no collision is seen, with \<open>y\<close> the lateral offset of the carrot and \<open>d\<close>
  the distance the code computes for it, the command emitted holds what the two clamps
  make of the limiter's output for the raw velocities \<open>desired_linear_vel\<close> and
  \<open>desired_linear_vel * k\<close>, where \<open>k\<close> is that curvature. For a carrot with \<open>y = 0\<close> the
  raw angular velocity is zero. A carrot at \<open>(1, 1)\<close>, at distance \<open>\<surd>2\<close>, gives curvature 1
  and, with a desired linear velocity of 0.5, the raw command \<open>(0.5, 0.5)\<close>.
\<close>

theorem pure_pursuit_law:
  assumes "transformGlobalPlan e s pose = (Inr w, s1)"
    and "\<not> isCollisionImminent e pose (carrot_pose (poses w) (getLookAheadDistance cfg speed))"
  shows "let la = getLookAheadDistance cfg speed;
             carrot = carrot_pose (poses w) la;
             y = pt_y (position carrot);
             d = carrot_dist pose carrot;
             k = (if d > 1/1000 then 2 * y / d\<^sup>2 else 0);
             dt = seconds (stamp (ps_header pose) - stamp (ts_header (last_cmd s1)));
             out = applyKinematicConstraints cfg e s1 (desired_linear_vel cfg)
                     (desired_linear_vel cfg * k) \<bar>la - d\<bar> la dt
         in curvature y d = k
          \<and> raw_command cfg y d = (desired_linear_vel cfg, desired_linear_vel cfg * k)
          \<and> (\<exists>cmd. computeVelocityCommands cfg e s pose speed = (Inr cmd, s1\<lparr>last_cmd := cmd\<rparr>)
                \<and> v_x (linear (ts_twist cmd))
                    = dclamp (fst out) (Finite 0) (Finite (desired_linear_vel cfg))
                \<and> v_z (angular (ts_twist cmd))
                    = dclamp (snd out) (Finite (- max_angular_vel cfg))
                        (Finite (max_angular_vel cfg)))
          \<and> (y = 0 \<longrightarrow>
                out = applyKinematicConstraints cfg e s1 (desired_linear_vel cfg) 0 \<bar>la - d\<bar> la dt)
          \<and> (\<forall>y' d'. curvature y' d' = (if d' > 1/1000 then 2 * y' / d'\<^sup>2 else 0)
                \<and> raw_command cfg y' d'
                    = (desired_linear_vel cfg,
                       desired_linear_vel cfg * (if d' > 1/1000 then 2 * y' / d'\<^sup>2 else 0))
                \<and> snd (raw_command cfg 0 d') = 0)
          \<and> curvature 1 (hypot 1 1) = 1
          \<and> raw_command (cfg\<lparr>desired_linear_vel := 1/2\<rparr>) 1 (hypot 1 1) = (1/2, 1/2)"
proof -
  have k: "curvature y' d' = (if d' > 1/1000 then 2 * y' / d'\<^sup>2 else 0)" for y' d'
    by (simp add: curvature_def power2_eq_square)
  have "(1::real)/1000 < sqrt 2"
    using sqrt2_bounds(1) by simp
  then have one: "curvature 1 (hypot 1 1) = 1"
    by (simp add: curvature_def hypot_def)
  have raw: "raw_command c y' d' = (desired_linear_vel c, desired_linear_vel c * curvature y' d')"
    for c y' d'
    by (simp add: raw_command_def)
  have tick: "\<exists>cmd. computeVelocityCommands cfg e s pose speed = (Inr cmd, s1\<lparr>last_cmd := cmd\<rparr>)
      \<and> v_x (linear (ts_twist cmd))
          = dclamp (fst (applyKinematicConstraints cfg e s1 (desired_linear_vel cfg)
                           (desired_linear_vel cfg
                            * curvature (pt_y (position (carrot_pose (poses w)
                                                  (getLookAheadDistance cfg speed))))
                                (carrot_dist pose (carrot_pose (poses w)
                                                    (getLookAheadDistance cfg speed))))
                           \<bar>getLookAheadDistance cfg speed
                            - carrot_dist pose (carrot_pose (poses w)
                                                 (getLookAheadDistance cfg speed))\<bar>
                           (getLookAheadDistance cfg speed)
                           (seconds (stamp (ps_header pose) - stamp (ts_header (last_cmd s1))))))
              (Finite 0) (Finite (desired_linear_vel cfg))
      \<and> v_z (angular (ts_twist cmd))
          = dclamp (snd (applyKinematicConstraints cfg e s1 (desired_linear_vel cfg)
                           (desired_linear_vel cfg
                            * curvature (pt_y (position (carrot_pose (poses w)
                                                  (getLookAheadDistance cfg speed))))
                                (carrot_dist pose (carrot_pose (poses w)
                                                    (getLookAheadDistance cfg speed))))
                           \<bar>getLookAheadDistance cfg speed
                            - carrot_dist pose (carrot_pose (poses w)
                                                 (getLookAheadDistance cfg speed))\<bar>
                           (getLookAheadDistance cfg speed)
                           (seconds (stamp (ps_header pose) - stamp (ts_header (last_cmd s1))))))
              (Finite (- max_angular_vel cfg)) (Finite (max_angular_vel cfg))"
    unfolding tick_after_window [OF assms(1)] using assms(2) by (simp add: Let_def)
  show ?thesis
    unfolding Let_def
    apply (intro conjI)
    subgoal by (rule k)
    subgoal by (simp only: raw k)
    subgoal using tick by (simp only: k)
    subgoal by simp
    subgoal by (simp only: raw k) simp
    subgoal by (rule one)
    subgoal by (simp add: raw one)
    done
qed

text \<open>
  The theorem at the robot that stands at the origin of its base frame with the
  carrot at \<open>(1, 1)\<close>: the raw command is \<open>(0.5, 0.5)\<close>, the limiter returns \<open>(1, 0.5)\<close> for
  it, and the command emitted is \<open>(0.5, 0.5)\<close>.
\<close>

theorem pure_pursuit_law_witness:
  "fst (transformGlobalPlan diag_env diag_state diag_pose)
     = Inr \<lparr>path_header = \<lparr>frame_id = ''map'', stamp = 1000000000\<rparr>,
            poses = [pose_at ''map'' 1000000000 1 1]\<rparr>
   \<and> isCollisionImminent diag_env diag_pose
        (carrot_pose [pose_at ''map'' 1000000000 1 1] (getLookAheadDistance ex_cfg ex_speed))
       = False
   \<and> raw_command ex_cfg 1 (sqrt 2) = (1/2, 1/2)
   \<and> v_x (linear (ts_twist (projr (fst
        (computeVelocityCommands ex_cfg diag_env diag_state diag_pose ex_speed))))) = Finite (1/2)
   \<and> v_z (angular (ts_twist (projr (fst
        (computeVelocityCommands ex_cfg diag_env diag_state diag_pose ex_speed))))) = Finite (1/2)"
proof -
  let ?w = "\<lparr>path_header = \<lparr>frame_id = ''map'', stamp = 1000000000\<rparr>,
             poses = [pose_at ''map'' 1000000000 1 1]\<rparr>"
  have nc: "\<not> isCollisionImminent diag_env diag_pose
               (carrot_pose (poses ?w) (getLookAheadDistance ex_cfg ex_speed))"
    by (simp add: isCollisionImminent_def diag_env_def ex_env_def)
  have la: "getLookAheadDistance ex_cfg ex_speed = 2/5"
    by (simp add: getLookAheadDistance_def ex_cfg_def)
  have y: "pt_y (position (ps_pose (pose_at ''map'' 1000000000 1 1))) = 1"
    by (simp add: pose_at_def default_pose_def)
  have d: "carrot_dist diag_pose (ps_pose (pose_at ''map'' 1000000000 1 1)) = sqrt 2"
    by (simp add: carrot_dist_def diag_pose_def pose_at_def default_pose_def hypot_diag)
  have de: "\<bar>2/5 - sqrt 2\<bar> = sqrt 2 - 2/5"
    using sqrt2_bounds(1) by simp
  have gt: "(1::real)/1000 < sqrt 2"
    using sqrt2_bounds(1) by simp
  have dt: "seconds (stamp (ps_header diag_pose) - stamp (ts_header (last_cmd diag_state))) = 1"
    by (simp add: seconds_def diag_pose_def pose_at_def diag_state_def zero_cmd_def)
  have cf: "desired_linear_vel ex_cfg = 1/2" "max_angular_vel ex_cfg = 1"
    by (simp_all add: ex_cfg_def)
  note law = pure_pursuit_law [OF diag_window nc, unfolded Let_def]
  from law [THEN conjunct2, THEN conjunct1]
  have r: "raw_command ex_cfg 1 (sqrt 2) = (1/2, 1/2)"
    using gt by (simp add: la carrot_single y d cf power2_eq_square)
  from law [THEN conjunct2, THEN conjunct2, THEN conjunct1] obtain cmd where
    t: "computeVelocityCommands ex_cfg diag_env diag_state diag_pose ex_speed
          = (Inr cmd, diag_state\<lparr>published := [?w], last_cmd := cmd\<rparr>)"
    and l0: "v_x (linear (ts_twist cmd))
          = dclamp (fst (applyKinematicConstraints ex_cfg diag_env (diag_state\<lparr>published := [?w]\<rparr>)
                           (1/2) (1/2) (sqrt 2 - 2/5) (2/5) 1))
              (Finite 0) (Finite (1/2))"
    and a0: "v_z (angular (ts_twist cmd))
          = dclamp (snd (applyKinematicConstraints ex_cfg diag_env (diag_state\<lparr>published := [?w]\<rparr>)
                           (1/2) (1/2) (sqrt 2 - 2/5) (2/5) 1))
              (Finite (- 1)) (Finite 1)"
    using gt by (auto simp: la carrot_single y d de dt cf power2_eq_square)
  from l0 a0 have l: "v_x (linear (ts_twist cmd)) = Finite (1/2)"
    and a: "v_z (angular (ts_twist cmd)) = Finite (1/2)"
    by (simp_all add: diag_limited dclamp_def)
  from nc r t l a show ?thesis
    by (simp add: diag_window)
qed

subsection \<open>C8: the acceleration limits\<close>

text \<open>
  Claim C8. For \<open>dt > 0\<close>, and with \<open>lin\<close> the linear velocity after the scaling of lines
  240 to 242: on each axis the output is the last command plus \<open>max_accel * dt\<close> when
  \<open>(raw - last) / dt\<close> is above \<open>max_accel\<close>, the last command minus \<open>max_decel * dt\<close> when
  it is below \<open>- max_decel\<close>, and the raw value otherwise. This holds of the IEEE values
  whatever the last command and the lookahead are, and so of the numbers when the
  last command is one and the lookahead is not zero where line 241 divides by it. When
  \<open>max_accel + max_decel\<close> is not negative the output then differs from the last command
  by at most \<open>max_accel * dt\<close> upwards and \<open>max_decel * dt\<close> downwards. With \<open>dt = 0.1\<close>,
  \<open>max_accel = 1\<close>, a last linear velocity of 0 and \<open>lin = 0.5\<close> the linear output is 0.1.
\<close>

theorem acceleration_limiting:
  assumes "0 < dt"
  shows "let last_lin = v_x (linear (ts_twist (last_cmd s)));
             last_ang = v_z (angular (ts_twist (last_cmd s)));
             lin = (if dist_error > 2 * costmap_resolution e
                    then dmul (Finite raw_lin) (ddiv (Finite dist_error) (Finite lookahead))
                    else Finite raw_lin);
             out = applyKinematicConstraints cfg e s raw_lin raw_ang dist_error lookahead dt
         in fst out = (if dless (Finite (max_accel cfg)) (ddiv (dsub lin last_lin) (Finite dt))
                       then dadd last_lin (Finite (max_accel cfg * dt))
                       else if dless (ddiv (dsub lin last_lin) (Finite dt)) (Finite (- max_decel cfg))
                            then dsub last_lin (Finite (max_decel cfg * dt))
                       else lin)
          \<and> snd out = (if dless (Finite (max_accel cfg))
                            (ddiv (dsub (Finite raw_ang) last_ang) (Finite dt))
                       then dadd last_ang (Finite (max_accel cfg * dt))
                       else if dless (ddiv (dsub (Finite raw_ang) last_ang) (Finite dt))
                                 (Finite (- max_decel cfg))
                            then dsub last_ang (Finite (max_decel cfg * dt))
                       else Finite raw_ang)
          \<and> (lookahead \<noteq> 0 \<or> dist_error \<le> 2 * costmap_resolution e \<longrightarrow>
               lin = Finite (if dist_error > 2 * costmap_resolution e
                             then raw_lin * (dist_error / lookahead) else raw_lin))
          \<and> (\<forall>l v. last_lin = Finite l \<and> lin = Finite v \<longrightarrow>
               fst out = Finite (if (v - l) / dt > max_accel cfg then l + max_accel cfg * dt
                                 else if (v - l) / dt < - max_decel cfg
                                      then l - max_decel cfg * dt
                                 else v))
          \<and> (\<forall>a. last_ang = Finite a \<longrightarrow>
               snd out = Finite (if (raw_ang - a) / dt > max_accel cfg then a + max_accel cfg * dt
                                 else if (raw_ang - a) / dt < - max_decel cfg
                                      then a - max_decel cfg * dt
                                 else raw_ang))
          \<and> (0 \<le> max_accel cfg + max_decel cfg \<longrightarrow>
               (\<forall>l v. last_lin = Finite l \<and> lin = Finite v \<longrightarrow>
                  (\<exists>r. fst out = Finite r
                      \<and> - (max_decel cfg * dt) \<le> r - l \<and> r - l \<le> max_accel cfg * dt))
               \<and> (\<forall>a. last_ang = Finite a \<longrightarrow>
                  (\<exists>r. snd out = Finite r
                      \<and> - (max_decel cfg * dt) \<le> r - a \<and> r - a \<le> max_accel cfg * dt)))
          \<and> (dt = 1/10 \<and> max_accel cfg = 1 \<and> last_lin = Finite 0 \<and> lin = Finite (1/2) \<longrightarrow>
               fst out = Finite (1/10))"
proof -
  have dtz: "dt \<noteq> 0" using assms by simp
  have axis: "(if dless (Finite ma) (ddiv (dsub (Finite v) (Finite l)) (Finite dt))
               then dadd (Finite l) (Finite (ma * dt))
               else if dless (ddiv (dsub (Finite v) (Finite l)) (Finite dt)) (Finite (- md))
                    then dsub (Finite l) (Finite (md * dt))
               else Finite v)
              = Finite (if (v - l) / dt > ma then l + ma * dt
                        else if (v - l) / dt < - md then l - md * dt else v)"
    for ma md v l :: real
    using dtz by (simp add: dsub_def)
  have rate: "- (md * dt) \<le> (if (v - l) / dt > ma then l + ma * dt
                                else if (v - l) / dt < - md then l - md * dt else v) - l
              \<and> (if (v - l) / dt > ma then l + ma * dt
                  else if (v - l) / dt < - md then l - md * dt else v) - l \<le> ma * dt"
    if "0 \<le> ma + md" for ma md v l :: real
  proof -
    from that assms have "0 \<le> (ma + md) * dt" by simp
    then have "- (md * dt) \<le> ma * dt" by (simp add: algebra_simps)
    then show ?thesis
      using assms by (auto simp: field_simps not_less)
  qed
  let ?last_lin = "v_x (linear (ts_twist (last_cmd s)))"
  let ?last_ang = "v_z (angular (ts_twist (last_cmd s)))"
  let ?lin = "if dist_error > 2 * costmap_resolution e
              then dmul (Finite raw_lin) (ddiv (Finite dist_error) (Finite lookahead))
              else Finite raw_lin"
  let ?out = "applyKinematicConstraints cfg e s raw_lin raw_ang dist_error lookahead dt"
  have f: "fst ?out = (if dless (Finite (max_accel cfg)) (ddiv (dsub ?lin ?last_lin) (Finite dt))
                       then dadd ?last_lin (Finite (max_accel cfg * dt))
                       else if dless (ddiv (dsub ?lin ?last_lin) (Finite dt)) (Finite (- max_decel cfg))
                            then dsub ?last_lin (Finite (max_decel cfg * dt))
                       else ?lin)"
    by (simp add: applyKinematicConstraints_def Let_def del: dmul.simps ddiv.simps)
  have g: "snd ?out = (if dless (Finite (max_accel cfg))
                            (ddiv (dsub (Finite raw_ang) ?last_ang) (Finite dt))
                       then dadd ?last_ang (Finite (max_accel cfg * dt))
                       else if dless (ddiv (dsub (Finite raw_ang) ?last_ang) (Finite dt))
                                 (Finite (- max_decel cfg))
                            then dsub ?last_ang (Finite (max_decel cfg * dt))
                       else Finite raw_ang)"
    by (simp add: applyKinematicConstraints_def Let_def del: dmul.simps ddiv.simps)
  have ff: "fst ?out = Finite (if (v - l) / dt > max_accel cfg then l + max_accel cfg * dt
                               else if (v - l) / dt < - max_decel cfg then l - max_decel cfg * dt
                               else v)"
    if "?last_lin = Finite l" "?lin = Finite v" for l v
    unfolding f that by (rule axis)
  have gg: "snd ?out = Finite (if (raw_ang - a) / dt > max_accel cfg then a + max_accel cfg * dt
                               else if (raw_ang - a) / dt < - max_decel cfg
                                    then a - max_decel cfg * dt
                               else raw_ang)"
    if "?last_ang = Finite a" for a
    unfolding g that by (rule axis)
  have sc: "?lin = Finite (if dist_error > 2 * costmap_resolution e
                           then raw_lin * (dist_error / lookahead) else raw_lin)"
    if "lookahead \<noteq> 0 \<or> dist_error \<le> 2 * costmap_resolution e"
    using that by auto
  have scen: "fst ?out = Finite (1/10)"
    if "dt = 1/10 \<and> max_accel cfg = 1 \<and> ?last_lin = Finite 0 \<and> ?lin = Finite (1/2)"
    using that ff [of 0 "1/2"] by simp
  show ?thesis
    unfolding Let_def
    apply (intro conjI allI impI)
    subgoal by (rule f)
    subgoal by (rule g)
    subgoal by (rule sc)
    subgoal for l v using ff [of l v] by simp
    subgoal for a using gg [of a] by simp
    subgoal for l v using ff [of l v] rate [of "max_accel cfg" "max_decel cfg" v l] by simp
    subgoal for a using gg [of a] rate [of "max_accel cfg" "max_decel cfg" raw_ang a] by simp
    subgoal by (rule scen)
    done
qed

text \<open>The scenario of the spec at the default parameters, with no distance error.\<close>

theorem acceleration_limiting_witness:
  "(0::real) < 1/10
   \<and> max_accel ex_cfg = 1 \<and> v_x (linear (ts_twist (last_cmd (near_state 0)))) = Finite 0
   \<and> applyKinematicConstraints ex_cfg ex_env (near_state 0) (1/2) 0 0 (2/5) (1/10)
       = (Finite (1/10), Finite 0)"
proof -
  have p: "(0::real) < 1/10" by simp
  have c: "max_accel ex_cfg = 1" "max_decel ex_cfg = 1" "costmap_resolution ex_env = 1/20"
    "v_x (linear (ts_twist (last_cmd (near_state 0)))) = Finite 0"
    "v_z (angular (ts_twist (last_cmd (near_state 0)))) = Finite 0"
    by (simp_all add: ex_cfg_def ex_env_def near_state_def zero_cmd_def default_twist_def)
  note al = acceleration_limiting [OF p, where s = "near_state 0" and dist_error = 0 and e = ex_env
      and raw_lin = "1/2" and lookahead = "2/5" and cfg = ex_cfg and raw_ang = 0, unfolded Let_def]
  note lin = al [THEN conjunct2, THEN conjunct2, THEN conjunct2, THEN conjunct1, rule_format,
      of 0 "1/2"]
  note ang = al [THEN conjunct2, THEN conjunct2, THEN conjunct2, THEN conjunct2, THEN conjunct1,
      rule_format, of 0]
  from lin c
  have "fst (applyKinematicConstraints ex_cfg ex_env (near_state 0) (1/2) 0 0 (2/5) (1/10))
          = Finite (1/10)"
    by simp
  moreover from ang c
  have "snd (applyKinematicConstraints ex_cfg ex_env (near_state 0) (1/2) 0 0 (2/5) (1/10))
          = Finite 0"
    by simp
  ultimately show ?thesis
    using p c by (simp add: prod_eq_iff)
qed

subsection \<open>C9: the carrot\<close>

text \<open>
  Claim C9. On a window that is not empty, when some pose lies at least the
  lookahead distance from the origin of the local frame, the carrot is the first such
  pose in window order: every pose before it is strictly closer. When no pose does,
  the carrot is the last pose of the window.
\<close>

theorem carrot_selection:
  assumes "ps \<noteq> []"
  shows "if \<exists>p\<in>set ps. origin_dist p \<ge> lookahead
         then goal_pose_it ps lookahead < length ps
              \<and> origin_dist (ps ! goal_pose_it ps lookahead) \<ge> lookahead
              \<and> (\<forall>j<goal_pose_it ps lookahead. origin_dist (ps ! j) < lookahead)
              \<and> carrot_pose ps lookahead = ps_pose (ps ! goal_pose_it ps lookahead)
         else carrot_pose ps lookahead = ps_pose (last ps)"
proof (cases "\<exists>p\<in>set ps. origin_dist p \<ge> lookahead")
  case True
  let ?P = "\<lambda>p. origin_dist p \<ge> lookahead"
  from True have lt: "find_if ?P ps < length ps"
    by (simp add: find_if_lt_iff)
  then have g: "goal_pose_it ps lookahead = find_if ?P ps"
    by (simp add: goal_pose_it_def)
  have "\<forall>j<find_if ?P ps. origin_dist (ps ! j) < lookahead"
    using find_if_first [of _ ?P ps] by (auto simp: not_le)
  with True lt g find_if_holds [OF lt] show ?thesis
    by (simp add: carrot_pose_def)
next
  case False
  let ?P = "\<lambda>p. origin_dist p \<ge> lookahead"
  from False have "\<not> find_if ?P ps < length ps"
    by (simp add: find_if_lt_iff)
  with find_if_le [of ?P ps] have "find_if ?P ps = length ps" by simp
  then have "goal_pose_it ps lookahead = length ps - 1"
    by (simp add: goal_pose_it_def)
  with False assms show ?thesis
    by (simp add: carrot_pose_def last_conv_nth)
qed

text \<open>
  The scenario of the spec: on \<open>[(0,0), (1,0), (2,0)]\<close> with lookahead 1.5 the carrot is
  \<open>(2,0)\<close>; without the third pose no pose qualifies and the carrot is the last one.
\<close>

theorem carrot_selection_witness:
  "[pose_at ''base_link'' 0 0 0, pose_at ''base_link'' 0 1 0, pose_at ''base_link'' 0 2 0] \<noteq> []
   \<and> goal_pose_it
         [pose_at ''base_link'' 0 0 0, pose_at ''base_link'' 0 1 0, pose_at ''base_link'' 0 2 0]
         (3/2) = 2
   \<and> carrot_pose
         [pose_at ''base_link'' 0 0 0, pose_at ''base_link'' 0 1 0, pose_at ''base_link'' 0 2 0]
         (3/2) = ps_pose (pose_at ''base_link'' 0 2 0)
   \<and> carrot_pose [pose_at ''base_link'' 0 0 0, pose_at ''base_link'' 0 1 0] (3/2)
       = ps_pose (pose_at ''base_link'' 0 1 0)"
proof -
  let ?w = "[pose_at ''base_link'' 0 0 0, pose_at ''base_link'' 0 1 0, pose_at ''base_link'' 0 2 0]"
  let ?v = "[pose_at ''base_link'' 0 0 0, pose_at ''base_link'' 0 1 0]"
  have g: "goal_pose_it ?w (3/2) = 2"
    by (simp add: goal_pose_it_def origin_dist_on_axis)
  have "carrot_pose ?w (3/2) = ps_pose (?w ! goal_pose_it ?w (3/2))"
    using carrot_selection [of ?w "3/2"] by (simp add: origin_dist_on_axis)
  moreover have "carrot_pose ?v (3/2) = ps_pose (last ?v)"
    using carrot_selection [of ?v "3/2"] by (simp add: origin_dist_on_axis)
  ultimately show ?thesis using g by simp
qed

subsection \<open>C10: the window\<close>

text \<open>
  Claim C10, as the code has it. For a held plan that is not empty and a robot pose
  that transforms into the frame of the plan, the closest pose \<open>b\<close> and the end of the
  window \<open>en\<close> satisfy \<open>b \<le> en\<close>, and \<open>en = b\<close> exactly when the closest pose itself is
  farther from the robot than half the extent of the cost grid. In that case the call
  fails on the empty window. Otherwise it returns one entry for each pose of
  \<open>[b, en)\<close>, at least one, and entry \<open>i\<close> is the pose \<open>b + i\<close> of the plan, restamped, when
  the plan is in the base frame already, what the transform service returns for it
  when the service succeeds, and otherwise the entry before it (the value-initialised
  pose for the first entry): a transform that fails for one pose neither shortens the
  window nor raises an error.
\<close>

theorem window_contents:
  assumes "poses (global_plan s) \<noteq> []"
    and "transformPose e (frame_id (path_header (global_plan s))) pose default_pose_stamped
         = (True, robot_pose)"
  shows "let ps = poses (global_plan s);
             f = frame_id (path_header (global_plan s));
             b = transformation_begin robot_pose ps;
             en = transformation_end e robot_pose ps
         in b < length ps \<and> b \<le> en \<and> en \<le> length ps
          \<and> (en = b) = (euclidean_distance robot_pose (ps ! b) > max_transform_dist e)
          \<and> (case fst (transformGlobalPlan e s pose) of
                Inl err \<Rightarrow> err = EmptyResultingPlan \<and> en = b
              | Inr w \<Rightarrow> b < en \<and> length (poses w) = en - b
                  \<and> (\<forall>i < en - b. poses w ! i =
                       (let stamped_pose =
                              \<lparr>ps_header = \<lparr>frame_id = f, stamp = stamp (ps_header robot_pose)\<rparr>,
                               ps_pose = ps_pose (ps ! (b + i))\<rparr>
                        in if f = base_frame_id e then stamped_pose
                           else (case tf_transform e (base_frame_id e) stamped_pose of
                                   Some p \<Rightarrow> p
                                 | None \<Rightarrow> if i = 0 then default_pose_stamped
                                            else poses w ! (i - 1)))))"
proof -
  let ?ps = "poses (global_plan s)"
  let ?f = "frame_id (path_header (global_plan s))"
  let ?b = "transformation_begin robot_pose ?ps"
  let ?en = "transformation_end e robot_pose ?ps"
  let ?gs = "take (?en - ?b) (drop ?b ?ps)"
  let ?w = "transformGlobalPoseToLocal e ?f (stamp (ps_header robot_pose)) ?gs default_pose_stamped"
  from assms(1) have bnd: "?b < length ?ps" "?b \<le> ?en" "?en \<le> length ?ps"
    using transformation_begin_lt [of ?ps robot_pose]
      transformation_end_bounds [of ?ps robot_pose e] by simp_all
  have eq: "(?en = ?b) = (euclidean_distance robot_pose (?ps ! ?b) > max_transform_dist e)"
    by (rule transformation_end_eq_begin [OF assms(1)])
  have len: "length ?gs = ?en - ?b"
    using bnd by simp
  have nth: "?w ! i =
       (let stamped_pose =
              \<lparr>ps_header = \<lparr>frame_id = ?f, stamp = stamp (ps_header robot_pose)\<rparr>,
               ps_pose = ps_pose (?ps ! (?b + i))\<rparr>
        in if ?f = base_frame_id e then stamped_pose
           else (case tf_transform e (base_frame_id e) stamped_pose of
                   Some p \<Rightarrow> p
                 | None \<Rightarrow> if i = 0 then default_pose_stamped else ?w ! (i - 1)))"
    if "i < ?en - ?b" for i
  proof -
    from that bnd have "?gs ! i = ?ps ! (?b + i)" by simp
    with that len transformGlobalPoseToLocal_nth [of i ?gs e ?f "stamp (ps_header robot_pose)"
        default_pose_stamped]
    show ?thesis
      by (simp add: transformPose_def Let_def split: option.splits)
  qed
  have res: "fst (transformGlobalPlan e s pose) =
       (if ?en = ?b then Inl EmptyResultingPlan
        else Inr \<lparr>path_header =
                    \<lparr>frame_id = base_frame_id e, stamp = stamp (ps_header robot_pose)\<rparr>,
                  poses = ?w\<rparr>)"
    using transformGlobalPlan_robot_ok [OF assms] by (simp add: Let_def)
  show ?thesis
  proof (cases "?en = ?b")
    case True
    with bnd eq res show ?thesis by (simp add: Let_def)
  next
    case False
    with bnd have "?b < ?en" by simp
    with False bnd eq res len nth show ?thesis
      by (simp add: Let_def length_transformGlobalPoseToLocal cong: if_cong option.case_cong)
  qed
qed

text \<open>
  The theorem at the plan of one pose, one metre from the robot: the window is that
  pose, in the base frame.
\<close>

theorem window_contents_witness:
  "poses (global_plan (near_state 0)) \<noteq> []
   \<and> transformPose ex_env (frame_id (path_header (global_plan (near_state 0)))) ex_pose
         default_pose_stamped = (True, ex_pose)
   \<and> transformation_begin ex_pose (poses (global_plan (near_state 0))) = 0
   \<and> transformation_end ex_env ex_pose (poses (global_plan (near_state 0))) = 1
   \<and> euclidean_distance ex_pose (poses (global_plan (near_state 0)) ! 0) \<le> max_transform_dist ex_env
   \<and> poses (projr (fst (transformGlobalPlan ex_env (near_state 0) ex_pose)))
       = [pose_at ''base_link'' 1000000000 1 0]"
proof -
  have ne: "poses (global_plan (near_state 0)) \<noteq> []"
    by (simp add: near_state_def plan_of_def)
  have rp: "transformPose ex_env (frame_id (path_header (global_plan (near_state 0)))) ex_pose
              default_pose_stamped = (True, ex_pose)"
    by (simp add: near_state_def plan_of_def ex_robot_pose0)
  have w: "fst (transformGlobalPlan ex_env (near_state 0) ex_pose)
           = Inr \<lparr>path_header = \<lparr>frame_id = ''base_link'', stamp = 1000000000\<rparr>,
                  poses = [pose_at ''base_link'' 1000000000 1 0]\<rparr>"
    using near_window [of False 0] by (simp add: ex_env_def)
  have len: "length (poses (global_plan (near_state 0))) = 1"
    by (simp add: near_state_def plan_of_def)
  let ?b = "transformation_begin ex_pose (poses (global_plan (near_state 0)))"
  let ?en = "transformation_end ex_env ex_pose (poses (global_plan (near_state 0)))"
  note wc = window_contents [OF ne rp]
  from wc len have b: "?b < 1" and en: "?en \<le> 1"
    by (simp_all add: Let_def)
  from wc w have lt: "?b < ?en"
    by (simp add: Let_def)
  from wc have eq: "(?en = ?b) = (euclidean_distance ex_pose (poses (global_plan (near_state 0)) ! ?b)
                      > max_transform_dist ex_env)"
    by (simp add: Let_def)
  from b en lt have b0: "?b = 0" and en1: "?en = 1" by simp_all
  with eq have "transformation_begin ex_pose (poses (global_plan (near_state 0))) = 0
        \<and> transformation_end ex_env ex_pose (poses (global_plan (near_state 0))) = 1
        \<and> euclidean_distance ex_pose (poses (global_plan (near_state 0)) ! 0)
            \<le> max_transform_dist ex_env"
    by simp
  with ne rp w show ?thesis by simp
qed

text \<open>
  C10 as stated fails at the plan whose closest pose is five metres from the robot,
  with a window radius of 2.5 m: the plan is not empty, the robot pose transforms, and
  the call fails on the empty window.
\<close>

theorem window_empty_counterexample:
  "poses (global_plan far_state) \<noteq> []
   \<and> transformPose ex_env (frame_id (path_header (global_plan far_state))) ex_pose
         default_pose_stamped = (True, ex_pose)
   \<and> fst (transformGlobalPlan ex_env far_state ex_pose) = Inl EmptyResultingPlan"
  by (simp add: far_window) (simp add: far_state_def plan_of_def ex_robot_pose0)

end
